theory Spec2Isabelle
  imports Main
begin

section \<open>Values shared by the modules\<close>

text \<open>
  JavaScript values that travel in response bodies and error objects. A number is kept
  as an integer: the code only ever asks whether such a value is truthy.
\<close>

datatype json =
    JNull
  | JBool bool
  | JNum int
  | JStr string
  | JArr "json list"
  | JObj "(string \<times> json) list"

text \<open>Truthiness as \<^verbatim>\<open>||\<close> and \<^verbatim>\<open>!\<close> see it.\<close>

fun truthy :: "json \<Rightarrow> bool" where
  "truthy JNull = False"
| "truthy (JBool b) = b"
| "truthy (JNum n) = (n \<noteq> 0)"
| "truthy (JStr s) = (s \<noteq> [])"
| "truthy (JArr xs) = True"
| "truthy (JObj kvs) = True"

text \<open>
  Optional chaining \<^verbatim>\<open>v?.k\<close>: \<open>None\<close> is \<^verbatim>\<open>undefined\<close>. Only own properties
  of objects are found (the keys read by the code, \<^verbatim>\<open>error\<close> and \<^verbatim>\<open>message\<close>, are
  not properties of strings, numbers, booleans or arrays); of a repeated key the last
  one counts.
\<close>

fun get_prop :: "json option \<Rightarrow> string \<Rightarrow> json option" where
  "get_prop (Some (JObj kvs)) k = map_of (rev kvs) k"
| "get_prop _ k = None"

text \<open>\<^verbatim>\<open>a || b\<close> where \<open>a\<close> may be undefined.\<close>

definition js_or :: "json option \<Rightarrow> json \<Rightarrow> json" where
  "js_or a b = (case a of None \<Rightarrow> b | Some v \<Rightarrow> if truthy v then v else b)"

text \<open>A number inside a template string.\<close>

fun string_of_nat :: "nat \<Rightarrow> string" where
  "string_of_nat n =
     (if n < 10 then [''0123456789'' ! n]
      else string_of_nat (n div 10) @ [''0123456789'' ! (n mod 10)])"

declare string_of_nat.simps [simp del]

section \<open>utils/errors\<close>

text \<open>
  \<^verbatim>\<open>AppError\<close> and its subclasses: one record, the subclass in \<open>name\<close>. The message
  is whatever value the constructor was given.
\<close>

record AppError =
  name :: string
  message :: json
  statusCode :: nat
  code :: "string option"
  details :: "json option"

definition AuthenticationError :: "string \<Rightarrow> AppError" where
  "AuthenticationError msg =
     \<lparr>name = ''AuthenticationError'', message = JStr msg, statusCode = 401,
      code = Some ''AUTH_ERROR'', details = None\<rparr>"

definition PowerBIError :: "json \<Rightarrow> nat \<Rightarrow> json option \<Rightarrow> AppError" where
  "PowerBIError msg st det =
     \<lparr>name = ''PowerBIError'', message = msg, statusCode = st,
      code = Some ''POWERBI_ERROR'', details = det\<rparr>"

section \<open>utils/env\<close>

type_synonym process_env = "string \<rightharpoonup> string"

text \<open>\<^verbatim>\<open>process.env.X || d\<close>: an unset and an empty variable both give the default.\<close>

definition or_default :: "string option \<Rightarrow> string \<Rightarrow> string" where
  "or_default v d = (case v of None \<Rightarrow> d | Some x \<Rightarrow> if x = [] then d else x)"

record env =
  CLIENT_ID :: string
  CLIENT_SECRET :: string
  TENANT_ID :: string
  API_KEY :: string
  PORT :: string
  PBI_SCOPE :: string
  PBI_AUTH_MODE :: string
  CORS_ORIGINS :: string
  PBI_TOOLS_PATH :: string

text \<open>The object \<^verbatim>\<open>env\<close>, as built from the process environment at module load.\<close>

definition env_of :: "process_env \<Rightarrow> env" where
  "env_of penv =
     \<lparr>CLIENT_ID = or_default (penv ''CLIENT_ID'') '''',
      CLIENT_SECRET = or_default (penv ''CLIENT_SECRET'') '''',
      TENANT_ID = or_default (penv ''TENANT_ID'') '''',
      API_KEY = or_default (penv ''API_KEY'') '''',
      PORT = or_default (penv ''PORT'') ''3000'',
      PBI_SCOPE = ''https://analysis.windows.net/powerbi/api/.default'',
      PBI_AUTH_MODE = or_default (penv ''PBI_AUTH_MODE'') ''sp'',
      CORS_ORIGINS = or_default (penv ''CORS_ORIGINS'') ''*'',
      PBI_TOOLS_PATH = or_default (penv ''PBI_TOOLS_PATH'') ''pbi-tools''\<rparr>"

section \<open>auth/msal\<close>

subsection \<open>The identity provider, as the module sees it\<close>

text \<open>
  A \<^verbatim>\<open>Date\<close> is its number of milliseconds since the epoch. An
  \<^verbatim>\<open>AuthenticationResult\<close> has an access token (a string, possibly empty) and an
  expiry that may be \<^verbatim>\<open>null\<close>.
\<close>

datatype AuthenticationResult =
  AuthenticationResult (res_accessToken: string) (res_expiresOn: "int option")

record msal_config =
  clientId :: string
  authority :: string
  clientSecret :: "string option"

datatype idp_request =
    ClientCredentialRequest msal_config "string list"
  | DeviceCodeRequest msal_config "string list"

record device_code_response =
  verificationUri :: string
  userCode :: string

datatype idp_outcome = Rejected | Resolved "AuthenticationResult option"

text \<open>
  What one call to the provider does: the device-code prompts it hands to the callback
  (none in the client-credential flow), the time the call takes, and how the promise
  settles.
\<close>

record idp_reply =
  prompts :: "device_code_response list"
  latency :: nat
  outcome :: idp_outcome

text \<open>
  The provider answers a request made at a given instant. Building an MSAL client
  (\<^verbatim>\<open>new ConfidentialClientApplication\<close>, \<^verbatim>\<open>new PublicClientApplication\<close>) is taken
  to succeed, and so are the logger and the console: only the provider call can reject.
\<close>

type_synonym provider = "idp_request \<Rightarrow> int \<Rightarrow> idp_reply"

subsection \<open>Module state and the world around it\<close>

record TokenCache =
  accessToken :: string
  expiresOn :: int

datatype log_level = Debug | Info | Warn | Error

record AxiosRequestConfig =
  http_method :: string
  url :: string
  body :: "json option"
  retry :: "nat option"

record response =
  status :: nat
  data :: json

datatype http_outcome = HttpResponse response | NetworkFailure string

text \<open>What leaves the process: MSAL clients built, provider calls, HTTP exchanges.\<close>

datatype event =
    NewConfidentialClient msal_config
  | NewPublicClient msal_config
  | IdpCall idp_request
  | HttpExchange AxiosRequestConfig string http_outcome

text \<open>
  \<open>tokenCache\<close> is the module variable; \<open>clock\<close> is what \<^verbatim>\<open>Date.now()\<close> returns;
  \<open>trace\<close>, \<open>logs\<close> and \<open>console\<close> record the effects in order. The logger is taken
  to record its level and message.
\<close>

record state =
  tokenCache :: "TokenCache option"
  clock :: int
  trace :: "event list"
  logs :: "(log_level \<times> string) list"
  console :: "string list"

definition initial_state :: "int \<Rightarrow> state" where
  "initial_state t0 = \<lparr>tokenCache = None, clock = t0, trace = [], logs = [], console = []\<rparr>"

definition logger :: "log_level \<Rightarrow> string \<Rightarrow> state \<Rightarrow> state" where
  "logger lvl msg s = s\<lparr>logs := logs s @ [(lvl, msg)]\<rparr>"

definition console_log :: "string \<Rightarrow> state \<Rightarrow> state" where
  "console_log line s = s\<lparr>console := console s @ [line]\<rparr>"

definition emit :: "event \<Rightarrow> state \<Rightarrow> state" where
  "emit ev s = s\<lparr>trace := trace s @ [ev]\<rparr>"

definition elapse :: "nat \<Rightarrow> state \<Rightarrow> state" where
  "elapse d s = s\<lparr>clock := clock s + int d\<rparr>"

subsection \<open>acquireTokenServicePrincipal\<close>

definition acquireTokenServicePrincipal ::
  "env \<Rightarrow> provider \<Rightarrow> state \<Rightarrow> (AppError + AuthenticationResult option) \<times> state" where
  "acquireTokenServicePrincipal e idp s =
     (if CLIENT_SECRET e = [] then
        (Inl (AuthenticationError
                ''CLIENT_SECRET is required for service principal authentication''), s)
      else
        let msalConfig =
              \<lparr>clientId = CLIENT_ID e,
               authority = ''https://login.microsoftonline.com/'' @ TENANT_ID e,
               clientSecret = Some (CLIENT_SECRET e)\<rparr>;
            s1 = emit (NewConfidentialClient msalConfig) s;
            req = ClientCredentialRequest msalConfig [PBI_SCOPE e];
            reply = idp req (clock s1);
            s2 = elapse (latency reply) (emit (IdpCall req) s1)
        in case outcome reply of
             Resolved r \<Rightarrow> (Inr r, s2)
           | Rejected \<Rightarrow>
               (Inl (AuthenticationError ''Service principal authentication failed''),
                logger Error ''Service principal authentication failed'' s2))"

subsection \<open>acquireTokenDeviceCode\<close>

definition deviceCodeCallback :: "device_code_response \<Rightarrow> state \<Rightarrow> state" where
  "deviceCodeCallback r s =
     (let rule = replicate 60 (CHR ''='');
          nl = [CHR 0x0A];
          s1 = logger Info ''Device Code Authentication Required'' s;
          s2 = logger Info (''Open: '' @ verificationUri r) s1;
          s3 = logger Info (''Enter Code: '' @ userCode r) s2;
          s4 = console_log (nl @ rule) s3;
          s5 = console_log ''      DEVICE CODE AUTHENTICATION'' s4;
          s6 = console_log rule s5;
          s7 = console_log (''1. Visit: '' @ verificationUri r) s6;
          s8 = console_log (''2. Enter Code: '' @ userCode r) s7
      in console_log (rule @ nl) s8)"

definition acquireTokenDeviceCode ::
  "env \<Rightarrow> provider \<Rightarrow> state \<Rightarrow> (AppError + AuthenticationResult option) \<times> state" where
  "acquireTokenDeviceCode e idp s =
     (let msalConfig =
            \<lparr>clientId = CLIENT_ID e,
             authority = ''https://login.microsoftonline.com/'' @ TENANT_ID e,
             clientSecret = None\<rparr>;
          s1 = emit (NewPublicClient msalConfig) s;
          req = DeviceCodeRequest msalConfig [PBI_SCOPE e];
          reply = idp req (clock s1);
          s2 = fold deviceCodeCallback (prompts reply) (emit (IdpCall req) s1);
          s3 = elapse (latency reply) s2
      in case outcome reply of
           Resolved r \<Rightarrow> (Inr r, s3)
         | Rejected \<Rightarrow>
             (Inl (AuthenticationError ''Device code authentication failed''),
              logger Error ''Device code authentication failed'' s3))"

subsection \<open>getAccessToken and clearTokenCache\<close>

definition getAccessToken :: "env \<Rightarrow> provider \<Rightarrow> state \<Rightarrow> (AppError + string) \<times> state" where
  "getAccessToken e idp s =
     (let acquire =
            (let s1 = logger Info ''Acquiring new access token'' s;
                 (r, s2) =
                   (if PBI_AUTH_MODE e = ''sp'' then acquireTokenServicePrincipal e idp s1
                    else if PBI_AUTH_MODE e = ''device'' then acquireTokenDeviceCode e idp s1
                    else (Inl (AuthenticationError
                                 (''Invalid auth mode: '' @ PBI_AUTH_MODE e)), s1))
             in case r of
                  Inl err \<Rightarrow> (Inl err, s2)
                | Inr None \<Rightarrow>
                    (Inl (AuthenticationError ''Failed to acquire access token''), s2)
                | Inr (Some result) \<Rightarrow>
                    if res_accessToken result = [] then
                      (Inl (AuthenticationError ''Failed to acquire access token''), s2)
                    else
                      let s3 = s2\<lparr>tokenCache := Some
                                 \<lparr>accessToken = res_accessToken result,
                                  expiresOn =
                                    (case res_expiresOn result of
                                       Some d \<Rightarrow> d
                                     | None \<Rightarrow> clock s2 + 3600 * 1000)\<rparr>\<rparr>
                      in (Inr (res_accessToken result),
                          logger Info ''Access token acquired successfully'' s3))
      in case tokenCache s of
           Some c \<Rightarrow>
             if expiresOn c > clock s + 5 * 60 * 1000 then
               (Inr (accessToken c), logger Debug ''Using cached access token'' s)
             else acquire
         | None \<Rightarrow> acquire)"

definition clearTokenCache :: "state \<Rightarrow> state" where
  "clearTokenCache s = logger Debug ''Token cache cleared'' (s\<lparr>tokenCache := None\<rparr>)"

section \<open>services/powerbiClient\<close>

definition MAX_RETRIES :: nat where
  "MAX_RETRIES = 3"

definition RETRY_DELAY :: nat where
  "RETRY_DELAY = 1000"

text \<open>
  The remote API answers a request carrying a bearer token at a given instant: how long
  the exchange takes and what comes back.
\<close>

record http_reply =
  took :: nat
  result :: http_outcome

type_synonym api = "AxiosRequestConfig \<Rightarrow> string \<Rightarrow> int \<Rightarrow> http_reply"

record AxiosError =
  ax_message :: string
  ax_response :: "response option"

text \<open>Whatever a promise of this module can reject with.\<close>

datatype thrown = App AppError | Axios AxiosError

text \<open>
  How axios settles an exchange under its default \<^verbatim>\<open>validateStatus\<close>: a status in
  200..299 fulfils, any other response rejects with an error that carries the response,
  a failure without response rejects with an error that carries none.
\<close>

definition settle :: "http_outcome \<Rightarrow> AxiosError + response" where
  "settle out =
     (case out of
        HttpResponse r \<Rightarrow>
          if 200 \<le> status r \<and> status r < 300 then Inr r
          else Inl \<lparr>ax_message = ''Request failed with status code '' @ string_of_nat (status r),
                    ax_response = Some r\<rparr>
      | NetworkFailure m \<Rightarrow> Inl \<lparr>ax_message = m, ax_response = None\<rparr>)"

text \<open>
  \<^verbatim>\<open>this.client.request(config)\<close> with both interceptors: the request interceptor
  fetches the token; the response interceptor logs every rejection and retries a
  429 or 5xx with a doubled delay, by calling the client again.
\<close>

function client ::
  "env \<Rightarrow> provider \<Rightarrow> api \<Rightarrow> AxiosRequestConfig \<Rightarrow> state \<Rightarrow> (thrown + response) \<times> state" where
  "client e idp srv config s =
     (case getAccessToken e idp s of
        (Inl err, s1) \<Rightarrow> (Inl (App err), logger Error ''Power BI API error'' s1)
      | (Inr token, s1) \<Rightarrow>
          let reply = srv config token (clock s1);
              s2 = elapse (took reply) (emit (HttpExchange config token (result reply)) s1)
          in (case settle (result reply) of
               Inr resp \<Rightarrow> (Inr resp, s2)
             | Inl err \<Rightarrow>
                 let s3 = logger Error ''Power BI API error'' s2;
                     retryCount = (case retry config of None \<Rightarrow> 0 | Some n \<Rightarrow> n)
                 in if (case ax_response err of
                          None \<Rightarrow> False
                        | Some r \<Rightarrow> status r = 429 \<or> status r \<ge> 500)
                       \<and> retryCount < MAX_RETRIES
                    then
                      let originalRequest = config\<lparr>retry := Some (retryCount + 1)\<rparr>;
                          delay = RETRY_DELAY * 2 ^ retryCount;
                          s4 = logger Warn
                                 (''Retrying request ('' @ string_of_nat (retryCount + 1) @ ''/''
                                    @ string_of_nat MAX_RETRIES @ '') after ''
                                    @ string_of_nat delay @ ''ms'') s3
                      in client e idp srv originalRequest (elapse delay s4)
                    else (Inl (Axios err), s3)))"
  by pat_completeness auto
termination
  by (relation "measure (\<lambda>(e, idp, srv, config, s).
        MAX_RETRIES - (case retry config of None \<Rightarrow> 0 | Some n \<Rightarrow> n))")
     (auto split: option.splits)

declare client.simps [simp del]

text \<open>\<^verbatim>\<open>PowerBIClient.request\<close>.\<close>

definition request ::
  "env \<Rightarrow> provider \<Rightarrow> api \<Rightarrow> AxiosRequestConfig \<Rightarrow> state \<Rightarrow> (thrown + json) \<times> state" where
  "request e idp srv config s =
     (case client e idp srv config s of
        (Inr resp, s') \<Rightarrow> (Inr (data resp), s')
      | (Inl (Axios err), s') \<Rightarrow>
          (case ax_response err of
             Some r \<Rightarrow>
               (Inl (App (PowerBIError
                            (js_or (get_prop (get_prop (Some (data r)) ''error'') ''message'')
                                   (JStr (ax_message err)))
                            (status r) (Some (data r)))), s')
           | None \<Rightarrow> (Inl (Axios err), s'))
      | (Inl (App err), s') \<Rightarrow> (Inl (App err), s'))"

section \<open>States the process can be in\<close>

text \<open>
  The module variable starts as \<^verbatim>\<open>null\<close>; it changes only through the two exported
  functions of auth/msal, the API client calls the first of them, and time passes.
  The configuration object is built once and never written.
\<close>

inductive reachable :: "env \<Rightarrow> state \<Rightarrow> bool" for e :: env where
  start: "reachable e (initial_state t0)"
| token: "reachable e s \<Longrightarrow> reachable e (snd (getAccessToken e idp s))"
| clear: "reachable e s \<Longrightarrow> reachable e (clearTokenCache s)"
| api_request: "reachable e s \<Longrightarrow> reachable e (snd (request e idp srv config s))"
| wait: "reachable e s \<Longrightarrow> reachable e (elapse d s)"

section \<open>Notions used to state the properties\<close>

text \<open>An acquisition is a call to the identity provider; the trace counts them.\<close>

fun is_IdpCall :: "event \<Rightarrow> bool" where
  "is_IdpCall (IdpCall req) = True"
| "is_IdpCall _ = False"

definition acquisitions :: "state \<Rightarrow> nat" where
  "acquisitions s = length (filter is_IdpCall (trace s))"

text \<open>Every token the cache holds is a non-empty string.\<close>

definition cache_wf :: "state \<Rightarrow> bool" where
  "cache_wf s = (case tokenCache s of None \<Rightarrow> True | Some c \<Rightarrow> accessToken c \<noteq> [])"

text \<open>The condition under which the response interceptor calls the client again.\<close>

definition retryable :: "AxiosRequestConfig \<Rightarrow> AxiosError \<Rightarrow> bool" where
  "retryable config err \<longleftrightarrow>
     (case ax_response err of None \<Rightarrow> False | Some r \<Rightarrow> status r = 429 \<or> status r \<ge> 500)
     \<and> (case retry config of None \<Rightarrow> 0 | Some n \<Rightarrow> n) < MAX_RETRIES"

subsection \<open>A concrete deployment\<close>

text \<open>
  Service-credential strategy, application \<^verbatim>\<open>app1\<close>, tenant \<^verbatim>\<open>tenant1\<close>, secret
  \<^verbatim>\<open>s3cr3t\<close>, and a provider that issues \<^verbatim>\<open>TOK123\<close> valid for 3600 seconds.
\<close>

definition p7_env :: env where
  "p7_env = env_of [''PBI_AUTH_MODE'' \<mapsto> ''sp'', ''CLIENT_ID'' \<mapsto> ''app1'',
                    ''TENANT_ID'' \<mapsto> ''tenant1'', ''CLIENT_SECRET'' \<mapsto> ''s3cr3t'']"

definition p7_idp :: provider where
  "p7_idp req t =
     \<lparr>prompts = [], latency = 0,
      outcome = Resolved (Some (AuthenticationResult ''TOK123'' (Some (t + 3600 * 1000))))\<rparr>"


text \<open>A state whose cached token has a full hour left.\<close>

definition warm_state :: state where
  "warm_state =
     \<lparr>tokenCache = Some \<lparr>accessToken = ''TOK123'', expiresOn = 3600000\<rparr>,
      clock = 0, trace = [], logs = [], console = []\<rparr>"

text \<open>A state whose cached token expires five minutes minus one second from now.\<close>

definition stale_state :: state where
  "stale_state =
     \<lparr>tokenCache = Some \<lparr>accessToken = ''OLD'', expiresOn = 299000\<rparr>,
      clock = 0, trace = [], logs = [], console = []\<rparr>"

text \<open>The same deployment without a secret, and with a strategy nobody knows.\<close>

definition no_secret_env :: env where
  "no_secret_env = env_of [''PBI_AUTH_MODE'' \<mapsto> ''sp'', ''CLIENT_ID'' \<mapsto> ''app1'',
                           ''TENANT_ID'' \<mapsto> ''tenant1'']"

definition bad_mode_env :: env where
  "bad_mode_env = env_of [''PBI_AUTH_MODE'' \<mapsto> ''oauth'', ''CLIENT_ID'' \<mapsto> ''app1'',
                          ''TENANT_ID'' \<mapsto> ''tenant1'', ''CLIENT_SECRET'' \<mapsto> ''s3cr3t'']"

text \<open>A process environment in which the strategy selector is not set at all.\<close>

definition unset_mode_penv :: process_env where
  "unset_mode_penv = [''CLIENT_ID'' \<mapsto> ''app1'', ''TENANT_ID'' \<mapsto> ''tenant1'',
                      ''CLIENT_SECRET'' \<mapsto> ''s3cr3t'']"

text \<open>A provider that issues a different token from the 3000th second on.\<close>

definition rotating_idp :: provider where
  "rotating_idp req t =
     \<lparr>prompts = [], latency = 0,
      outcome = Resolved (Some (AuthenticationResult
                  (if t < 3000000 then ''TOK123'' else ''TOK456'') (Some (t + 3600 * 1000))))\<rparr>"

text \<open>A provider whose result carries no expiry and takes a quarter of a second.\<close>

definition no_expiry_idp :: provider where
  "no_expiry_idp req t =
     \<lparr>prompts = [], latency = 250,
      outcome = Resolved (Some (AuthenticationResult ''TOK123'' None))\<rparr>"

text \<open>The client configuration and the request of the concrete deployment.\<close>

definition p7_config :: msal_config where
  "p7_config = \<lparr>clientId = ''app1'', authority = ''https://login.microsoftonline.com/tenant1'',
                clientSecret = Some ''s3cr3t''\<rparr>"

definition p7_request :: idp_request where
  "p7_request = ClientCredentialRequest p7_config
                  [''https://analysis.windows.net/powerbi/api/.default'']"

text \<open>
  A remote API that answers the first attempt with 503 and every retry with a 404 whose
  body carries an error message; and the request that lists the workspaces.
\<close>

definition not_found :: response where
  "not_found =
     \<lparr>status = 404,
      data = JObj [(''error'', JObj [(''code'', JStr ''ItemNotFound''),
                                     (''message'', JStr ''Report not found'')])]\<rparr>"

definition flaky_api :: api where
  "flaky_api config tok t =
     \<lparr>took = 20,
      result =
        (case retry config of
           None \<Rightarrow> HttpResponse \<lparr>status = 503, data = JStr ''busy''\<rparr>
         | Some n \<Rightarrow>
             HttpResponse not_found)\<rparr>"

definition list_groups :: AxiosRequestConfig where
  "list_groups = \<lparr>http_method = ''GET'', url = ''/groups'', body = None, retry = None\<rparr>"

section \<open>Basic facts\<close>

lemma logger_fields [simp]:
  "tokenCache (logger l m s) = tokenCache s"
  "clock (logger l m s) = clock s"
  "trace (logger l m s) = trace s"
  "logs (logger l m s) = logs s @ [(l, m)]"
  by (simp_all add: logger_def)

lemma console_log_fields [simp]:
  "tokenCache (console_log x s) = tokenCache s"
  "clock (console_log x s) = clock s"
  "trace (console_log x s) = trace s"
  by (simp_all add: console_log_def)

lemma emit_fields [simp]:
  "tokenCache (emit ev s) = tokenCache s"
  "clock (emit ev s) = clock s"
  "trace (emit ev s) = trace s @ [ev]"
  "logs (emit ev s) = logs s"
  by (simp_all add: emit_def)

lemma elapse_fields [simp]:
  "tokenCache (elapse d s) = tokenCache s"
  "clock (elapse d s) = clock s + int d"
  "trace (elapse d s) = trace s"
  "logs (elapse d s) = logs s"
  by (simp_all add: elapse_def)

lemma deviceCodeCallback_fields [simp]:
  "tokenCache (deviceCodeCallback r s) = tokenCache s"
  "clock (deviceCodeCallback r s) = clock s"
  "trace (deviceCodeCallback r s) = trace s"
  by (simp_all add: deviceCodeCallback_def Let_def)

lemma fold_deviceCodeCallback_fields [simp]:
  "tokenCache (fold deviceCodeCallback ps s) = tokenCache s"
  "clock (fold deviceCodeCallback ps s) = clock s"
  "trace (fold deviceCodeCallback ps s) = trace s"
  by (induction ps arbitrary: s) simp_all

lemma getAccessToken_hit:
  assumes "tokenCache s = Some c" and "clock s + 5 * 60 * 1000 < expiresOn c"
  shows "getAccessToken e idp s = (Inr (accessToken c), logger Debug ''Using cached access token'' s)"
  using assms by (simp add: getAccessToken_def)

lemma acquireTokenServicePrincipal_tokenCache:
  "acquireTokenServicePrincipal e idp s = (r, s') \<Longrightarrow> tokenCache s' = tokenCache s"
  by (auto simp: acquireTokenServicePrincipal_def Let_def split: if_splits idp_outcome.splits)

lemma acquireTokenDeviceCode_tokenCache:
  "acquireTokenDeviceCode e idp s = (r, s') \<Longrightarrow> tokenCache s' = tokenCache s"
  by (auto simp: acquireTokenDeviceCode_def Let_def split: if_splits idp_outcome.splits)

lemma getAccessToken_wf:
  assumes "cache_wf s" shows "cache_wf (snd (getAccessToken e idp s))"
  using assms
  by (auto simp: getAccessToken_def cache_wf_def Let_def  split: option.splits if_splits prod.splits sum.splits dest: acquireTokenServicePrincipal_tokenCache acquireTokenDeviceCode_tokenCache)


lemma acquisitions_simps [simp]:
  "acquisitions (logger l m s) = acquisitions s"
  "acquisitions (elapse d s) = acquisitions s"
  by (simp_all add: acquisitions_def)

lemma p7_env_simps [simp]:
  "PBI_AUTH_MODE p7_env = ''sp''" "CLIENT_SECRET p7_env = ''s3cr3t''"
  "CLIENT_ID p7_env = ''app1''" "TENANT_ID p7_env = ''tenant1''"
  "PBI_SCOPE p7_env = ''https://analysis.windows.net/powerbi/api/.default''"
  by (simp_all add: p7_env_def env_of_def or_default_def)



lemma client_token_failed:
  assumes "getAccessToken e idp s = (Inl err, s1)"
  shows "client e idp srv config s = (Inl (App err), logger Error ''Power BI API error'' s1)"
  by (subst client.simps) (simp add: assms)

lemma client_fulfilled:
  assumes "getAccessToken e idp s = (Inr tok, s1)"
      and "settle (result (srv config tok (clock s1))) = Inr resp"
  shows "client e idp srv config s
           = (Inr resp, elapse (took (srv config tok (clock s1)))
                          (emit (HttpExchange config tok (result (srv config tok (clock s1)))) s1))"
  by (subst client.simps) (simp add: assms Let_def)

lemma client_rejected:
  assumes "getAccessToken e idp s = (Inr tok, s1)"
      and "settle (result (srv config tok (clock s1))) = Inl err"
      and "\<not> retryable config err"
  shows "client e idp srv config s
           = (Inl (Axios err),
              logger Error ''Power BI API error''
                (elapse (took (srv config tok (clock s1)))
                   (emit (HttpExchange config tok (result (srv config tok (clock s1)))) s1)))"
  using assms(3) by (subst client.simps) (auto simp add: assms(1,2) Let_def retryable_def)

lemma client_retried:
  assumes "getAccessToken e idp s = (Inr tok, s1)"
      and "settle (result (srv config tok (clock s1))) = Inl err"
      and "retryable config err"
  shows "\<exists>m. client e idp srv config s
           = client e idp srv
               (config\<lparr>retry := Some ((case retry config of None \<Rightarrow> 0 | Some n \<Rightarrow> n) + 1)\<rparr>)
               (elapse (RETRY_DELAY * 2 ^ (case retry config of None \<Rightarrow> 0 | Some n \<Rightarrow> n))
                  (logger Warn m
                     (logger Error ''Power BI API error''
                        (elapse (took (srv config tok (clock s1)))
                           (emit (HttpExchange config tok (result (srv config tok (clock s1)))) s1)))))"
  using assms(3) by (subst client.simps) (auto simp add: assms(1,2) Let_def retryable_def)

lemma client_invariant:
  assumes tok: "\<And>s. P s \<Longrightarrow> P (snd (getAccessToken e idp s))"
      and lg: "\<And>l m s. P s \<Longrightarrow> P (logger l m s)"
      and em: "\<And>ev s. P s \<Longrightarrow> P (emit ev s)"
      and el: "\<And>d s. P s \<Longrightarrow> P (elapse d s)"
  shows "P s \<Longrightarrow> P (snd (client e idp srv config s))"
proof (induction "MAX_RETRIES - (case retry config of None \<Rightarrow> 0 | Some n \<Rightarrow> n)" arbitrary: config s)
  case 0
  obtain r s1 where g: "getAccessToken e idp s = (r, s1)" by (cases "getAccessToken e idp s")
  have P1: "P s1" using tok [OF "0.prems"] g by simp
  show ?case
  proof (cases r)
    case (Inl err)
    then show ?thesis using g P1 by (simp add: client_token_failed lg)
  next
    case (Inr tk)
    show ?thesis
    proof (cases "settle (result (srv config tk (clock s1)))")
      case (Inl err)
      have "\<not> retryable config err" using "0.hyps" by (simp add: retryable_def)
      then show ?thesis using g Inr Inl P1 by (simp add: client_rejected lg em el)
    next
      case (Inr resp)
      then show ?thesis using g \<open>r = Inr tk\<close> P1 by (simp add: client_fulfilled lg em el)
    qed
  qed
next
  case (Suc k)
  obtain r s1 where g: "getAccessToken e idp s = (r, s1)" by (cases "getAccessToken e idp s")
  have P1: "P s1" using tok [OF Suc.prems] g by simp
  show ?case
  proof (cases r)
    case (Inl err)
    then show ?thesis using g P1 by (simp add: client_token_failed lg)
  next
    case (Inr tk)
    show ?thesis
    proof (cases "settle (result (srv config tk (clock s1)))")
      case (Inl err)
      show ?thesis
      proof (cases "retryable config err")
        case True
        have g': "getAccessToken e idp s = (Inr tk, s1)" using g Inr by simp
        from client_retried [of e idp s tk s1 srv config err, OF g' Inl True]
        obtain m where eq: "client e idp srv config s
           = client e idp srv
               (config\<lparr>retry := Some ((case retry config of None \<Rightarrow> 0 | Some n \<Rightarrow> n) + 1)\<rparr>)
               (elapse (RETRY_DELAY * 2 ^ (case retry config of None \<Rightarrow> 0 | Some n \<Rightarrow> n))
                  (logger Warn m
                     (logger Error ''Power BI API error''
                        (elapse (took (srv config tk (clock s1)))
                           (emit (HttpExchange config tk (result (srv config tk (clock s1)))) s1)))))"
          by auto
        have k: "k = MAX_RETRIES - (case retry (config\<lparr>retry := Some ((case retry config of None \<Rightarrow> 0 | Some n \<Rightarrow> n) + 1)\<rparr>) of None \<Rightarrow> 0 | Some n \<Rightarrow> n)"
          using Suc.hyps(2) by simp
        show ?thesis
          unfolding eq
          by (rule Suc.hyps(1) [OF k]) (intro lg em el P1)
      next
        case False
        then show ?thesis using g Inr Inl P1 by (simp add: client_rejected lg em el)
      qed
    next
      case (Inr resp)
      then show ?thesis using g \<open>r = Inr tk\<close> P1 by (simp add: client_fulfilled lg em el)
    qed
  qed
qed

lemma snd_request: "snd (request e idp srv config s) = snd (client e idp srv config s)"
  by (simp add: request_def split: prod.splits sum.splits thrown.splits option.splits)

lemma reachable_invariant:
  assumes r: "reachable e s"
      and init: "\<And>t. P (initial_state t)"
      and tok: "\<And>idp s. P s \<Longrightarrow> P (snd (getAccessToken e idp s))"
      and clr: "\<And>s. P s \<Longrightarrow> P (clearTokenCache s)"
      and lg: "\<And>l m s. P s \<Longrightarrow> P (logger l m s)"
      and em: "\<And>ev s. P s \<Longrightarrow> P (emit ev s)"
      and el: "\<And>d s. P s \<Longrightarrow> P (elapse d s)"
  shows "P s"
  using r
proof (induction rule: reachable.induct)
  case (start t0)
  show ?case by (rule init)
next
  case (token s idp)
  then show ?case by (intro tok)
next
  case (clear s)
  then show ?case by (intro clr)
next
  case (api_request s idp srv config)
  show ?case
    unfolding snd_request
    by (rule client_invariant [where P = P, OF tok lg em el]) (auto intro: api_request.IH)
next
  case (wait s d)
  then show ?case by (intro el)
qed

lemma cache_wf_simps [simp]:
  "cache_wf (logger l m s) = cache_wf s"
  "cache_wf (emit ev s) = cache_wf s"
  "cache_wf (elapse d s) = cache_wf s"
  "cache_wf (clearTokenCache s)"
  "cache_wf (initial_state t)"
  by (simp_all add: cache_wf_def clearTokenCache_def initial_state_def)

lemma reachable_cache_wf: "reachable e s \<Longrightarrow> cache_wf s"
  by (erule reachable_invariant [where P = cache_wf]) (simp_all add: getAccessToken_wf)

lemma getAccessToken_failure:
  "getAccessToken e idp s = (Inl err, s') \<Longrightarrow>
     (\<exists>m. err = AuthenticationError m) \<and> tokenCache s' = tokenCache s"
  by (auto simp: getAccessToken_def acquireTokenServicePrincipal_def acquireTokenDeviceCode_def
        Let_def split: option.splits if_splits idp_outcome.splits)

lemma getAccessToken_success:
  "getAccessToken e idp s = (Inr tok, s') \<Longrightarrow>
     (\<exists>c'. tokenCache s' = Some c' \<and> accessToken c' = tok \<and>
        ((tokenCache s = Some c' \<and> clock s + 5 * 60 * 1000 < expiresOn c' \<and> trace s' = trace s)
         \<or> (\<exists>cl req r. trace s' = trace s @ [cl, IdpCall req]
               \<and> outcome (idp req (clock s)) = Resolved (Some r)
               \<and> res_accessToken r = tok \<and> tok \<noteq> [])))"
  by (auto simp: getAccessToken_def acquireTokenServicePrincipal_def acquireTokenDeviceCode_def
        Let_def split: option.splits if_splits idp_outcome.splits)

lemma logger_tokenCache_update: "logger l m (s\<lparr>tokenCache := x\<rparr>) = (logger l m s)\<lparr>tokenCache := x\<rparr>"
  by (simp add: logger_def)

lemma acquireTokenServicePrincipal_cache_indep:
  "acquireTokenServicePrincipal e idp (s\<lparr>tokenCache := x\<rparr>)
     = (fst (acquireTokenServicePrincipal e idp s),
        (snd (acquireTokenServicePrincipal e idp s))\<lparr>tokenCache := x\<rparr>)"
  by (simp add: acquireTokenServicePrincipal_def Let_def logger_def emit_def elapse_def
        split: idp_outcome.splits)

lemma deviceCodeCallback_cache_indep:
  "deviceCodeCallback r (s\<lparr>tokenCache := x\<rparr>) = (deviceCodeCallback r s)\<lparr>tokenCache := x\<rparr>"
  by (simp add: deviceCodeCallback_def Let_def logger_def console_log_def)

lemma fold_deviceCodeCallback_cache_indep:
  "fold deviceCodeCallback ps (s\<lparr>tokenCache := x\<rparr>)
     = (fold deviceCodeCallback ps s)\<lparr>tokenCache := x\<rparr>"
  by (induction ps arbitrary: s) (simp_all add: deviceCodeCallback_cache_indep)

lemma acquireTokenDeviceCode_cache_indep:
  "acquireTokenDeviceCode e idp (s\<lparr>tokenCache := x\<rparr>)
     = (fst (acquireTokenDeviceCode e idp s),
        (snd (acquireTokenDeviceCode e idp s))\<lparr>tokenCache := x\<rparr>)"
proof -
  have em: "\<And>ev s. emit ev (s\<lparr>tokenCache := x\<rparr>) = (emit ev s)\<lparr>tokenCache := x\<rparr>"
    by (simp add: emit_def)
  have el: "\<And>d s. elapse d (s\<lparr>tokenCache := x\<rparr>) = (elapse d s)\<lparr>tokenCache := x\<rparr>"
    by (simp add: elapse_def)
  show ?thesis
    by (simp add: acquireTokenDeviceCode_def Let_def em el fold_deviceCodeCallback_cache_indep
          logger_tokenCache_update split: idp_outcome.splits)
qed

lemma miss_ignores_cache:
  assumes "tokenCache s = Some c" and "expiresOn c \<le> clock s + 5 * 60 * 1000"
  shows "fst (getAccessToken e idp s) = fst (getAccessToken e idp (s\<lparr>tokenCache := None\<rparr>))"
    and "trace (snd (getAccessToken e idp s)) = trace (snd (getAccessToken e idp (s\<lparr>tokenCache := None\<rparr>)))"
  using assms
  by (simp_all add: getAccessToken_def Let_def logger_tokenCache_update
        acquireTokenServicePrincipal_cache_indep acquireTokenDeviceCode_cache_indep
        split: prod.splits sum.splits option.splits)

lemma miss_acquires:
  assumes "\<forall>c. tokenCache s = Some c \<longrightarrow> expiresOn c \<le> clock s + 5 * 60 * 1000"
      and "PBI_AUTH_MODE e = ''sp'' \<and> CLIENT_SECRET e \<noteq> [] \<or> PBI_AUTH_MODE e = ''device''"
  shows "acquisitions (snd (getAccessToken e idp s)) = acquisitions s + 1"
  using assms
  by (auto simp: getAccessToken_def acquireTokenServicePrincipal_def acquireTokenDeviceCode_def
        acquisitions_def Let_def split: option.splits if_splits idp_outcome.splits)

lemma no_secret_cache_empty:
  assumes "reachable e s" and "PBI_AUTH_MODE e = ''sp''" and "CLIENT_SECRET e = []"
  shows "tokenCache s = None"
  using assms(1)
  by (rule reachable_invariant [where P = "\<lambda>s. tokenCache s = None"])
     (simp_all add: initial_state_def clearTokenCache_def getAccessToken_def
        acquireTokenServicePrincipal_def assms(2,3))

lemma bad_mode_cache_empty:
  assumes "reachable e s" and "PBI_AUTH_MODE e \<noteq> ''sp''" and "PBI_AUTH_MODE e \<noteq> ''device''"
  shows "tokenCache s = None"
  using assms(1)
  by (rule reachable_invariant [where P = "\<lambda>s. tokenCache s = None"])
     (simp_all add: initial_state_def clearTokenCache_def getAccessToken_def assms(2,3))

lemmas evals = getAccessToken_def acquireTokenServicePrincipal_def Let_def p7_idp_def initial_state_def
        emit_def elapse_def logger_def

text \<open>
  A case rule for the client: a property holds of every run if it holds of the three
  ways an attempt can end and is passed on by a retry.
\<close>

lemma client_cases [case_names token_failed fulfilled rejected retried]:
  assumes fail: "\<And>config s err s1.
            getAccessToken e idp s = (Inl err, s1) \<Longrightarrow>
            Q config s (Inl (App err), logger Error ''Power BI API error'' s1)"
      and ok: "\<And>config s tok s1 resp.
            getAccessToken e idp s = (Inr tok, s1) \<Longrightarrow>
            settle (result (srv config tok (clock s1))) = Inr resp \<Longrightarrow>
            Q config s
              (Inr resp, elapse (took (srv config tok (clock s1)))
                 (emit (HttpExchange config tok (result (srv config tok (clock s1)))) s1))"
      and rej: "\<And>config s tok s1 err.
            getAccessToken e idp s = (Inr tok, s1) \<Longrightarrow>
            settle (result (srv config tok (clock s1))) = Inl err \<Longrightarrow>
            \<not> retryable config err \<Longrightarrow>
            Q config s
              (Inl (Axios err),
               logger Error ''Power BI API error''
                 (elapse (took (srv config tok (clock s1)))
                    (emit (HttpExchange config tok (result (srv config tok (clock s1)))) s1)))"
      and retry: "\<And>config s tok s1 err config' s5.
            getAccessToken e idp s = (Inr tok, s1) \<Longrightarrow>
            settle (result (srv config tok (clock s1))) = Inl err \<Longrightarrow>
            retryable config err \<Longrightarrow>
            Q config' s5 (client e idp srv config' s5) \<Longrightarrow>
            client e idp srv config s = client e idp srv config' s5 \<Longrightarrow>
            Q config s (client e idp srv config' s5)"
  shows "Q config s (client e idp srv config s)"
proof (induction "MAX_RETRIES - (case retry config of None \<Rightarrow> 0 | Some n \<Rightarrow> n)"
         arbitrary: config s rule: less_induct)
  case less
  obtain r s1 where g: "getAccessToken e idp s = (r, s1)"
    by (cases "getAccessToken e idp s")
  show ?case
  proof (cases r)
    case (Inl err)
    with g have g': "getAccessToken e idp s = (Inl err, s1)" by simp
    show ?thesis
      unfolding client_token_failed [OF g'] by (rule fail [OF g'])
  next
    case (Inr tk)
    with g have g': "getAccessToken e idp s = (Inr tk, s1)" by simp
    show ?thesis
    proof (cases "settle (result (srv config tk (clock s1)))")
      case (Inr resp)
      show ?thesis
        unfolding client_fulfilled [of e idp s tk s1 srv config resp, OF g' Inr]
        by (rule ok [OF g' Inr])
    next
      case (Inl err)
      show ?thesis
      proof (cases "retryable config err")
        case False
        show ?thesis
          unfolding client_rejected [of e idp s tk s1 srv config err, OF g' Inl False]
          by (rule rej [OF g' Inl False])
      next
        case True
        from client_retried [of e idp s tk s1 srv config err, OF g' Inl True]
        obtain config' s5 where
          eq: "client e idp srv config s = client e idp srv config' s5"
          and c': "config' = config\<lparr>retry := Some ((case retry config of None \<Rightarrow> 0 | Some n \<Rightarrow> n) + 1)\<rparr>"
          by blast
        have lt: "MAX_RETRIES - (case retry config' of None \<Rightarrow> 0 | Some n \<Rightarrow> n)
                    < MAX_RETRIES - (case retry config of None \<Rightarrow> 0 | Some n \<Rightarrow> n)"
          using True by (simp add: c' retryable_def diff_less_mono2)
        have "Q config' s5 (client e idp srv config' s5)"
          by (rule less [OF lt])
        then show ?thesis
          unfolding eq by (rule retry [OF g' Inl True _ eq])
      qed
    qed
  qed
qed

lemma settle_rejection:
  assumes "settle out = Inl err" and "ax_response err = Some r"
  shows "out = HttpResponse r \<and> \<not> (200 \<le> status r \<and> status r < 300)
         \<and> ax_message err = ''Request failed with status code '' @ string_of_nat (status r)"
  using assms by (auto simp: settle_def split: http_outcome.splits if_splits)

lemma client_rejection_origin:
  "\<forall>err s'. client e idp srv config s = (Inl (Axios err), s') \<longrightarrow>
     trace s' \<noteq> []
     \<and> (\<exists>cfg tok out. last (trace s') = HttpExchange cfg tok out \<and> settle out = Inl err)"
  by (rule client_cases
        [where Q = "\<lambda>config s res. \<forall>err s'. res = (Inl (Axios err), s') \<longrightarrow>
           trace s' \<noteq> []
           \<and> (\<exists>cfg tok out. last (trace s') = HttpExchange cfg tok out \<and> settle out = Inl err)"])
     auto

lemmas client_evals = request_def client.simps getAccessToken_def settle_def Let_def
  elapse_def emit_def logger_def MAX_RETRIES_def RETRY_DELAY_def string_of_nat.simps

lemma getAccessToken_acquired:
  assumes "getAccessToken e idp s = (Inr tok, s1)" and "trace s1 \<noteq> trace s"
  shows "\<exists>cl req r.
           trace s1 = trace s @ [cl, IdpCall req]
           \<and> outcome (idp req (clock s)) = Resolved (Some r)
           \<and> res_accessToken r = tok
           \<and> tokenCache s1
               = Some \<lparr>accessToken = tok,
                       expiresOn = (case res_expiresOn r of
                                      Some x \<Rightarrow> x
                                    | None \<Rightarrow> clock s1 + 3600 * 1000)\<rparr>
           \<and> acquisitions s1 = acquisitions s + 1"
proof -
  from getAccessToken_success [OF assms(1)] assms(2)
  obtain cl req r where
    tr: "trace s1 = trace s @ [cl, IdpCall req]"
    and out: "outcome (idp req (clock s)) = Resolved (Some r)"
    and tk: "res_accessToken r = tok"
    by auto
  have c1: "tokenCache s1
              = Some \<lparr>accessToken = tok,
                      expiresOn = (case res_expiresOn r of
                                     Some x \<Rightarrow> x
                                   | None \<Rightarrow> clock s1 + 3600 * 1000)\<rparr>"
    using assms(1) tr out
    by (auto simp: getAccessToken_def acquireTokenServicePrincipal_def acquireTokenDeviceCode_def
          Let_def split: option.splits if_splits idp_outcome.splits)
  have acq: "acquisitions s1 = acquisitions s + 1"
    using assms
    by (auto simp: getAccessToken_def acquireTokenServicePrincipal_def acquireTokenDeviceCode_def
          acquisitions_def Let_def split: option.splits if_splits idp_outcome.splits)
  show ?thesis
    using tr out tk c1 acq by blast
qed

lemma settle_non_2xx:
  assumes "\<not> (200 \<le> status r \<and> status r < 300)"
  shows "settle (HttpResponse r)
           = Inl \<lparr>ax_message = ''Request failed with status code '' @ string_of_nat (status r),
                  ax_response = Some r\<rparr>"
  using assms by (auto simp: settle_def)

text \<open>
  Whatever the retries, a rejection that carries a response leaves \<open>request\<close> as a
  \<^verbatim>\<open>PowerBIError\<close> built from that response, which is the one of the last exchange.
\<close>

lemma rejected_response_translated:
  assumes "client e idp srv config s = (Inl (Axios err), s')"
      and "ax_response err = Some r"
  shows "request e idp srv config s
           = (Inl (App (PowerBIError
                          (js_or (get_prop (get_prop (Some (data r)) ''error'') ''message'')
                                 (JStr (ax_message err)))
                          (status r) (Some (data r)))), s')
         \<and> \<not> (200 \<le> status r \<and> status r < 300)
         \<and> (\<exists>cfg tok. last (trace s') = HttpExchange cfg tok (HttpResponse r))
         \<and> ax_message err = ''Request failed with status code '' @ string_of_nat (status r)
         \<and> (\<forall>m. get_prop (get_prop (Some (data r)) ''error'') ''message'' = Some (JStr m)
                  \<and> m \<noteq> []
               \<longrightarrow> fst (request e idp srv config s)
                     = Inl (App (PowerBIError (JStr m) (status r) (Some (data r)))))"
proof -
  have req: "request e idp srv config s
           = (Inl (App (PowerBIError
                          (js_or (get_prop (get_prop (Some (data r)) ''error'') ''message'')
                                 (JStr (ax_message err)))
                          (status r) (Some (data r)))), s')"
    by (simp add: request_def assms)
  from client_rejection_origin assms(1)
  obtain cfg tok out where o: "last (trace s') = HttpExchange cfg tok out" "settle out = Inl err"
    by blast
  from settle_rejection [OF o(2) assms(2)]
  have out: "out = HttpResponse r" "\<not> (200 \<le> status r \<and> status r < 300)"
    "ax_message err = ''Request failed with status code '' @ string_of_nat (status r)"
    by simp_all
  show ?thesis
    using req o(1) out by (auto simp: js_or_def)
qed

section \<open>Properties of the token provider\<close>

text \<open>
  C1 (cache hit). A cached credential whose expiry is more than five minutes after the
  current time is returned as it is: the call gives exactly the cached token, whatever
  the configuration and the provider are, and it builds no client, calls no provider
  and leaves the cache alone; its only effect is one debug log entry.
\<close>

theorem cache_hit_returns_cached:
  assumes "tokenCache s = Some c" and "clock s + 5 * 60 * 1000 < expiresOn c"
  shows "getAccessToken e idp s
           = (Inr (accessToken c), logger Debug ''Using cached access token'' s)
         \<and> trace (snd (getAccessToken e idp s)) = trace s
         \<and> tokenCache (snd (getAccessToken e idp s)) = Some c"
  using assms by (simp add: getAccessToken_def)

theorem cache_hit_returns_cached_witness:
  "tokenCache warm_state = Some \<lparr>accessToken = ''TOK123'', expiresOn = 3600000\<rparr>
   \<and> clock warm_state + 5 * 60 * 1000 < expiresOn \<lparr>accessToken = ''TOK123'', expiresOn = 3600000\<rparr>
   \<and> getAccessToken p7_env p7_idp warm_state
         = (Inr ''TOK123'', logger Debug ''Using cached access token'' warm_state)
   \<and> trace (snd (getAccessToken p7_env p7_idp warm_state)) = []"
  using cache_hit_returns_cached
          [of warm_state "\<lparr>accessToken = ''TOK123'', expiresOn = 3600000\<rparr>" p7_env p7_idp]
  by (simp add: warm_state_def)

text \<open>
  C2 (token or error). In every state the process can reach, \<open>getAccessToken\<close> has two
  outcomes only. Either it returns a non-empty token that is now the cached one, and
  which is either the cached token of a credential with more than five minutes left
  (nothing left the process) or the token the provider has just issued in this very
  call; or it fails, the error is an \<^verbatim>\<open>AuthenticationError\<close>, and the cached credential
  is what it was before the call.
\<close>

theorem token_or_authentication_error:
  assumes "reachable e s"
  shows "case getAccessToken e idp s of
           (Inr tok, s') \<Rightarrow>
             tok \<noteq> [] \<and>
             (\<exists>c'. tokenCache s' = Some c' \<and> accessToken c' = tok \<and>
                ((tokenCache s = Some c' \<and> clock s + 5 * 60 * 1000 < expiresOn c'
                    \<and> trace s' = trace s)
                 \<or> (\<exists>cl req r. trace s' = trace s @ [cl, IdpCall req]
                       \<and> outcome (idp req (clock s)) = Resolved (Some r)
                       \<and> res_accessToken r = tok)))
         | (Inl err, s') \<Rightarrow> (\<exists>m. err = AuthenticationError m) \<and> tokenCache s' = tokenCache s"
proof (cases "getAccessToken e idp s")
  case (Pair r s')
  show ?thesis
  proof (cases r)
    case (Inl err)
    with Pair getAccessToken_failure [of e idp s err s'] show ?thesis by simp
  next
    case (Inr tok)
    with Pair have g: "getAccessToken e idp s = (Inr tok, s')" by simp
    from getAccessToken_success [OF g] obtain c' where
      c: "tokenCache s' = Some c'" "accessToken c' = tok"
        "(tokenCache s = Some c' \<and> clock s + 5 * 60 * 1000 < expiresOn c' \<and> trace s' = trace s)
         \<or> (\<exists>cl req r. trace s' = trace s @ [cl, IdpCall req]
               \<and> outcome (idp req (clock s)) = Resolved (Some r)
               \<and> res_accessToken r = tok \<and> tok \<noteq> [])"
      by blast
    have "cache_wf s" using assms by (rule reachable_cache_wf)
    with c have "tok \<noteq> []" by (auto simp: cache_wf_def)
    with c g show ?thesis by auto
  qed
qed

theorem token_or_authentication_error_witness:
  "reachable p7_env (elapse 1000 (snd (getAccessToken p7_env p7_idp (initial_state 0))))
   \<and> getAccessToken p7_env p7_idp
         (elapse 1000 (snd (getAccessToken p7_env p7_idp (initial_state 0))))
       = (Inr ''TOK123'',
          logger Debug ''Using cached access token''
            (elapse 1000 (snd (getAccessToken p7_env p7_idp (initial_state 0)))))"
proof -
  have r: "reachable p7_env (elapse 1000 (snd (getAccessToken p7_env p7_idp (initial_state 0))))"
    by (intro reachable.wait reachable.token reachable.start)
  show ?thesis
    using r token_or_authentication_error [OF r, of p7_idp]
    by (simp add: getAccessToken_def acquireTokenServicePrincipal_def Let_def p7_idp_def initial_state_def
        emit_def elapse_def logger_def)
qed

text \<open>
  C4 (missing secret). Under the service-credential strategy with no client secret
  configured, every call of \<open>getAccessToken\<close> the process can make fails with the
  \<^verbatim>\<open>AuthenticationError\<close> of the secret check, after the one log entry that announces
  the acquisition: no MSAL client is built and no provider call is made.
\<close>

theorem missing_secret_fails_before_network:
  assumes "reachable e s" and "PBI_AUTH_MODE e = ''sp''" and "CLIENT_SECRET e = []"
  shows "getAccessToken e idp s
           = (Inl (AuthenticationError
                     ''CLIENT_SECRET is required for service principal authentication''),
              logger Info ''Acquiring new access token'' s)
         \<and> trace (snd (getAccessToken e idp s)) = trace s"
  using no_secret_cache_empty [OF assms] assms(2,3)
  by (simp add: getAccessToken_def acquireTokenServicePrincipal_def)

theorem missing_secret_fails_before_network_witness:
  "reachable no_secret_env
     (clearTokenCache (snd (getAccessToken no_secret_env p7_idp (initial_state 0))))
   \<and> PBI_AUTH_MODE no_secret_env = ''sp'' \<and> CLIENT_SECRET no_secret_env = []
   \<and> fst (getAccessToken no_secret_env p7_idp
            (clearTokenCache (snd (getAccessToken no_secret_env p7_idp (initial_state 0)))))
       = Inl (AuthenticationError
                ''CLIENT_SECRET is required for service principal authentication'')
   \<and> trace (snd (getAccessToken no_secret_env p7_idp
            (clearTokenCache (snd (getAccessToken no_secret_env p7_idp (initial_state 0))))))
       = []"
proof -
  have r: "reachable no_secret_env
             (clearTokenCache (snd (getAccessToken no_secret_env p7_idp (initial_state 0))))"
    by (intro reachable.clear reachable.token reachable.start)
  have m: "PBI_AUTH_MODE no_secret_env = ''sp''" and c: "CLIENT_SECRET no_secret_env = []"
    by (simp_all add: no_secret_env_def env_of_def or_default_def)
  show ?thesis
    using r m c missing_secret_fails_before_network [OF r m c, of p7_idp]
    by (simp add: clearTokenCache_def getAccessToken_def acquireTokenServicePrincipal_def Let_def p7_idp_def initial_state_def
        emit_def elapse_def logger_def)
qed

text \<open>
  C5 (unknown strategy). When the strategy selector of the configuration is neither
  \<^verbatim>\<open>sp\<close> nor \<^verbatim>\<open>device\<close>, every call of \<open>getAccessToken\<close> the process can make fails
  with the \<^verbatim>\<open>AuthenticationError\<close> that names the selector, and nothing leaves the
  process.
\<close>

theorem unknown_strategy_fails_without_network:
  assumes "reachable e s" and "PBI_AUTH_MODE e \<noteq> ''sp''" and "PBI_AUTH_MODE e \<noteq> ''device''"
  shows "getAccessToken e idp s
           = (Inl (AuthenticationError (''Invalid auth mode: '' @ PBI_AUTH_MODE e)),
              logger Info ''Acquiring new access token'' s)
         \<and> trace (snd (getAccessToken e idp s)) = trace s"
  using bad_mode_cache_empty [OF assms] assms(2,3)
  by (simp add: getAccessToken_def)

theorem unknown_strategy_fails_without_network_witness:
  "reachable bad_mode_env (elapse 5 (snd (getAccessToken bad_mode_env p7_idp (initial_state 0))))
   \<and> PBI_AUTH_MODE bad_mode_env \<noteq> ''sp'' \<and> PBI_AUTH_MODE bad_mode_env \<noteq> ''device''
   \<and> fst (getAccessToken bad_mode_env p7_idp
            (elapse 5 (snd (getAccessToken bad_mode_env p7_idp (initial_state 0)))))
       = Inl (AuthenticationError ''Invalid auth mode: oauth'')
   \<and> trace (snd (getAccessToken bad_mode_env p7_idp
            (elapse 5 (snd (getAccessToken bad_mode_env p7_idp (initial_state 0))))))
       = []"
proof -
  have r: "reachable bad_mode_env
             (elapse 5 (snd (getAccessToken bad_mode_env p7_idp (initial_state 0))))"
    by (intro reachable.wait reachable.token reachable.start)
  have m: "PBI_AUTH_MODE bad_mode_env = ''oauth''"
    by (simp add: bad_mode_env_def env_of_def or_default_def)
  have m1: "PBI_AUTH_MODE bad_mode_env \<noteq> ''sp''" and m2: "PBI_AUTH_MODE bad_mode_env \<noteq> ''device''"
    by (simp_all add: m)
  show ?thesis
    using r m1 m2 unknown_strategy_fails_without_network [OF r m1 m2, of p7_idp]
    by (simp add: m getAccessToken_def acquireTokenServicePrincipal_def Let_def p7_idp_def initial_state_def
        emit_def elapse_def logger_def)
qed

text \<open>
  C6 (expiry boundary). A cached credential whose expiry is at most five minutes after
  the current time (five minutes minus one second, for one) counts as expired: the call
  gives the result, and makes the external calls, of a call on an empty cache, and under
  a strategy that can run (service credential with a secret, or device code) it makes
  exactly one call to the provider.
\<close>

theorem expired_cache_reacquires:
  assumes "tokenCache s = Some c" and "expiresOn c \<le> clock s + 5 * 60 * 1000"
  shows "fst (getAccessToken e idp s) = fst (getAccessToken e idp (s\<lparr>tokenCache := None\<rparr>))
         \<and> trace (snd (getAccessToken e idp s))
             = trace (snd (getAccessToken e idp (s\<lparr>tokenCache := None\<rparr>)))
         \<and> (PBI_AUTH_MODE e = ''sp'' \<and> CLIENT_SECRET e \<noteq> [] \<or> PBI_AUTH_MODE e = ''device''
              \<longrightarrow> acquisitions (snd (getAccessToken e idp s)) = acquisitions s + 1)"
  using miss_ignores_cache [OF assms] miss_acquires [of s e idp] assms by auto

theorem expired_cache_reacquires_witness:
  "tokenCache stale_state = Some \<lparr>accessToken = ''OLD'', expiresOn = 299000\<rparr>
   \<and> expiresOn \<lparr>accessToken = ''OLD'', expiresOn = 299000\<rparr>
        = clock stale_state + 5 * 60 * 1000 - 1000
   \<and> PBI_AUTH_MODE p7_env = ''sp'' \<and> CLIENT_SECRET p7_env \<noteq> []
   \<and> fst (getAccessToken p7_env p7_idp stale_state) = Inr ''TOK123''
   \<and> acquisitions (snd (getAccessToken p7_env p7_idp stale_state)) = 1"
  using expired_cache_reacquires
          [of stale_state "\<lparr>accessToken = ''OLD'', expiresOn = 299000\<rparr>" p7_env p7_idp]
  by (simp add: stale_state_def acquisitions_def getAccessToken_def acquireTokenServicePrincipal_def Let_def p7_idp_def initial_state_def
        emit_def elapse_def logger_def)

text \<open>
  C7 (explicit invalidation). \<open>clearTokenCache\<close> is a total function of the state: it
  has no failing branch. It empties the cache whatever was cached, so the next call of
  \<open>getAccessToken\<close> cannot be served from the cache: under a strategy that can run it
  makes exactly one call to the provider, and a token it returns is the one the
  provider has just issued.
\<close>

theorem clear_forces_fresh_acquisition:
  "tokenCache (clearTokenCache s) = None
   \<and> (PBI_AUTH_MODE e = ''sp'' \<and> CLIENT_SECRET e \<noteq> [] \<or> PBI_AUTH_MODE e = ''device''
        \<longrightarrow> acquisitions (snd (getAccessToken e idp (clearTokenCache s))) = acquisitions s + 1)
   \<and> (\<forall>tok s'. getAccessToken e idp (clearTokenCache s) = (Inr tok, s')
        \<longrightarrow> (\<exists>cl req r. trace s' = trace s @ [cl, IdpCall req]
               \<and> outcome (idp req (clock s)) = Resolved (Some r)
               \<and> res_accessToken r = tok))"
proof -
  have a: "tokenCache (clearTokenCache s) = None"
    by (simp add: clearTokenCache_def)
  have b: "acquisitions (clearTokenCache s) = acquisitions s"
    "trace (clearTokenCache s) = trace s" "clock (clearTokenCache s) = clock s"
    by (simp_all add: clearTokenCache_def acquisitions_def)
  have c: "\<exists>cl req r. trace s' = trace s @ [cl, IdpCall req]
               \<and> outcome (idp req (clock s)) = Resolved (Some r)
               \<and> res_accessToken r = tok"
    if "getAccessToken e idp (clearTokenCache s) = (Inr tok, s')" for tok s'
    using getAccessToken_success [OF that] a b by auto
  show ?thesis
    using a b c miss_acquires [of "clearTokenCache s" e idp] by auto
qed

theorem clear_forces_fresh_acquisition_witness:
  "tokenCache warm_state = Some \<lparr>accessToken = ''TOK123'', expiresOn = 3600000\<rparr>
   \<and> PBI_AUTH_MODE p7_env = ''sp'' \<and> CLIENT_SECRET p7_env \<noteq> []
   \<and> acquisitions (snd (getAccessToken p7_env p7_idp (clearTokenCache warm_state))) = 1
   \<and> trace (snd (getAccessToken p7_env p7_idp (clearTokenCache warm_state)))
       = [NewConfidentialClient
            \<lparr>clientId = ''app1'', authority = ''https://login.microsoftonline.com/tenant1'',
             clientSecret = Some ''s3cr3t''\<rparr>,
          IdpCall (ClientCredentialRequest
            \<lparr>clientId = ''app1'', authority = ''https://login.microsoftonline.com/tenant1'',
             clientSecret = Some ''s3cr3t''\<rparr>
            [''https://analysis.windows.net/powerbi/api/.default''])]"
  using clear_forces_fresh_acquisition [of warm_state p7_env p7_idp]
  by (simp add: warm_state_def clearTokenCache_def acquisitions_def getAccessToken_def acquireTokenServicePrincipal_def Let_def p7_idp_def initial_state_def
        emit_def elapse_def logger_def)

text \<open>
  C3 (a refresh replaces the cache), as the code has it. A call that makes an
  acquisition and succeeds has called the provider exactly once, and it leaves in the
  cache, whatever was cached before, the token of the provider's result together with
  the expiry of that result (or, when the result has none, one hour after the
  acquisition completed). Every later call made while more than five minutes remain
  before that expiry returns that token from the cache, with no further acquisition.
  So when the result is valid for 3600 seconds or more from the start of the call, a
  second call made less than 55 minutes after that start (in immediate succession,
  for one) returns the same token, and the two calls make one provider call.
\<close>

theorem refresh_replaces_cache:
  assumes "getAccessToken e idp s = (Inr tok, s1)" and "trace s1 \<noteq> trace s"
  shows "\<exists>cl req r.
           trace s1 = trace s @ [cl, IdpCall req]
           \<and> outcome (idp req (clock s)) = Resolved (Some r)
           \<and> res_accessToken r = tok
           \<and> tokenCache s1
               = Some \<lparr>accessToken = tok,
                       expiresOn = (case res_expiresOn r of
                                      Some x \<Rightarrow> x
                                    | None \<Rightarrow> clock s1 + 3600 * 1000)\<rparr>
           \<and> acquisitions s1 = acquisitions s + 1
           \<and> (\<forall>d idp'.
                  clock s1 + int d + 5 * 60 * 1000
                    < (case res_expiresOn r of Some x \<Rightarrow> x | None \<Rightarrow> clock s1 + 3600 * 1000)
                  \<longrightarrow>
                  getAccessToken e idp' (elapse d s1)
                    = (Inr tok, logger Debug ''Using cached access token'' (elapse d s1))
                  \<and> acquisitions (snd (getAccessToken e idp' (elapse d s1)))
                      = acquisitions s + 1)
           \<and> (\<forall>d idp' x.
                  res_expiresOn r = Some x \<and> clock s + 3600 * 1000 \<le> x
                  \<and> clock s1 + int d < clock s + 55 * 60 * 1000
                  \<longrightarrow>
                  getAccessToken e idp' (elapse d s1)
                    = (Inr tok, logger Debug ''Using cached access token'' (elapse d s1))
                  \<and> acquisitions (snd (getAccessToken e idp' (elapse d s1)))
                      = acquisitions s + 1)"
proof -
  from getAccessToken_acquired [OF assms]
  obtain cl req r where
    tr: "trace s1 = trace s @ [cl, IdpCall req]"
    and out: "outcome (idp req (clock s)) = Resolved (Some r)"
    and tk: "res_accessToken r = tok"
    and c1: "tokenCache s1
               = Some \<lparr>accessToken = tok,
                       expiresOn = (case res_expiresOn r of
                                      Some x \<Rightarrow> x
                                    | None \<Rightarrow> clock s1 + 3600 * 1000)\<rparr>"
    and acq: "acquisitions s1 = acquisitions s + 1"
    by blast
  have hit: "getAccessToken e idp' (elapse d s1)
               = (Inr tok, logger Debug ''Using cached access token'' (elapse d s1))"
    if "clock s1 + int d + 5 * 60 * 1000
          < (case res_expiresOn r of Some x \<Rightarrow> x | None \<Rightarrow> clock s1 + 3600 * 1000)"
    for d idp'
    using getAccessToken_hit
            [of "elapse d s1"
                "\<lparr>accessToken = tok,
                  expiresOn = (case res_expiresOn r of
                                 Some x \<Rightarrow> x
                               | None \<Rightarrow> clock s1 + 3600 * 1000)\<rparr>" e idp']
          c1 that
    by simp
  have hour: "getAccessToken e idp' (elapse d s1)
               = (Inr tok, logger Debug ''Using cached access token'' (elapse d s1))"
    if "res_expiresOn r = Some x" and "clock s + 3600 * 1000 \<le> x"
      and "clock s1 + int d < clock s + 55 * 60 * 1000"
    for d idp' x
    using hit [of d idp'] that by simp
  show ?thesis
    apply (intro exI [of _ cl] exI [of _ req] exI [of _ r] conjI)
          apply (rule tr)
         apply (rule out)
        apply (rule tk)
       apply (rule c1)
      apply (rule acq)
     apply (simp add: hit acq)
    apply (auto simp: hour acq)
    done
qed

theorem refresh_replaces_cache_witness:
  "getAccessToken p7_env p7_idp (initial_state 0)
     = (Inr ''TOK123'', snd (getAccessToken p7_env p7_idp (initial_state 0)))
   \<and> trace (snd (getAccessToken p7_env p7_idp (initial_state 0))) \<noteq> trace (initial_state 0)
   \<and> tokenCache (snd (getAccessToken p7_env p7_idp (initial_state 0)))
       = Some \<lparr>accessToken = ''TOK123'', expiresOn = 3600000\<rparr>
   \<and> getAccessToken p7_env p7_idp (elapse 0 (snd (getAccessToken p7_env p7_idp (initial_state 0))))
       = (Inr ''TOK123'',
          logger Debug ''Using cached access token''
            (elapse 0 (snd (getAccessToken p7_env p7_idp (initial_state 0)))))
   \<and> acquisitions (snd (getAccessToken p7_env p7_idp
         (elapse 0 (snd (getAccessToken p7_env p7_idp (initial_state 0)))))) = 1"
  using refresh_replaces_cache
          [of p7_env p7_idp "initial_state 0" "''TOK123''"
              "snd (getAccessToken p7_env p7_idp (initial_state 0))"]
  by (simp add: evals acquisitions_def)

text \<open>
  The claim as written, "within the new token's validity window", fails in the last
  five minutes of that window: a token issued at 0 for 3600 seconds is still valid at
  3400 seconds, yet the call made then goes to the provider again and returns what the
  provider issues then.
\<close>

theorem refresh_counterexample:
  "fst (getAccessToken p7_env rotating_idp (initial_state 0)) = Inr ''TOK123''
   \<and> tokenCache (snd (getAccessToken p7_env rotating_idp (initial_state 0)))
       = Some \<lparr>accessToken = ''TOK123'', expiresOn = 3600000\<rparr>
   \<and> clock (elapse 3400000 (snd (getAccessToken p7_env rotating_idp (initial_state 0))))
       = 3400000
   \<and> fst (getAccessToken p7_env rotating_idp
            (elapse 3400000 (snd (getAccessToken p7_env rotating_idp (initial_state 0)))))
       = Inr ''TOK456''
   \<and> acquisitions (snd (getAccessToken p7_env rotating_idp
            (elapse 3400000 (snd (getAccessToken p7_env rotating_idp (initial_state 0))))))
       = 2"
  by (simp add: evals rotating_idp_def acquisitions_def)

text \<open>
  C8 (missing strategy selector), as the code has it. A process environment in which
  the selector is unset or empty yields the selector \<^verbatim>\<open>sp\<close>: \<open>getAccessToken\<close> does
  exactly what it does when \<^verbatim>\<open>sp\<close> is configured, so it raises no configuration
  error for the missing selector, and with a secret configured and no usable cached
  credential it calls the provider once.
\<close>

theorem missing_selector_defaults_to_sp:
  assumes "penv ''PBI_AUTH_MODE'' = None \<or> penv ''PBI_AUTH_MODE'' = Some []"
  shows "PBI_AUTH_MODE (env_of penv) = ''sp''
         \<and> getAccessToken (env_of penv) idp s
             = getAccessToken (env_of (penv(''PBI_AUTH_MODE'' \<mapsto> ''sp''))) idp s
         \<and> (CLIENT_SECRET (env_of penv) \<noteq> []
              \<and> (\<forall>c. tokenCache s = Some c \<longrightarrow> expiresOn c \<le> clock s + 5 * 60 * 1000)
              \<longrightarrow> acquisitions (snd (getAccessToken (env_of penv) idp s)) = acquisitions s + 1)"
proof -
  have eq: "env_of penv = env_of (penv(''PBI_AUTH_MODE'' \<mapsto> ''sp''))"
    using assms by (auto simp: env_of_def or_default_def)
  have m: "PBI_AUTH_MODE (env_of penv) = ''sp''"
    using assms by (auto simp: env_of_def or_default_def)
  show ?thesis
    using eq m miss_acquires [of s "env_of penv" idp] by auto
qed

theorem missing_selector_defaults_to_sp_witness:
  "(unset_mode_penv ''PBI_AUTH_MODE'' = None \<or> unset_mode_penv ''PBI_AUTH_MODE'' = Some [])
   \<and> PBI_AUTH_MODE (env_of unset_mode_penv) = ''sp''
   \<and> getAccessToken (env_of unset_mode_penv) p7_idp (initial_state 0)
       = getAccessToken p7_env p7_idp (initial_state 0)"
  using missing_selector_defaults_to_sp [of unset_mode_penv p7_idp "initial_state 0"]
  by (simp add: unset_mode_penv_def p7_env_def env_of_def or_default_def)

text \<open>
  The claim as written expects an error and no acquisition attempt: with the selector
  unset and a secret configured the call returns the provider's token after one
  provider call.
\<close>

theorem missing_selector_counterexample:
  "unset_mode_penv ''PBI_AUTH_MODE'' = None
   \<and> fst (getAccessToken (env_of unset_mode_penv) p7_idp (initial_state 0)) = Inr ''TOK123''
   \<and> acquisitions (snd (getAccessToken (env_of unset_mode_penv) p7_idp (initial_state 0))) = 1"
  by (simp add: unset_mode_penv_def env_of_def or_default_def evals acquisitions_def)

text \<open>
  C10 (default expiry). When the acquisition that a call has made resolves with a token
  and no expiry, the cached credential expires exactly 3600 seconds after the instant
  at which the acquisition completed, and every call made less than 55 minutes after
  that instant returns the token from the cache.
\<close>

theorem missing_expiry_defaults_to_one_hour:
  assumes "getAccessToken e idp s = (Inr tok, s1)"
      and "trace s1 = trace s @ [cl, IdpCall req]"
      and "outcome (idp req (clock s)) = Resolved (Some r)"
      and "res_expiresOn r = None"
  shows "tokenCache s1 = Some \<lparr>accessToken = tok, expiresOn = clock s1 + 3600 * 1000\<rparr>
         \<and> (\<forall>d idp'. d < 55 * 60 * 1000 \<longrightarrow>
               getAccessToken e idp' (elapse d s1)
                 = (Inr tok, logger Debug ''Using cached access token'' (elapse d s1)))"
proof -
  have c: "tokenCache s1 = Some \<lparr>accessToken = tok, expiresOn = clock s1 + 3600 * 1000\<rparr>"
    using assms
    by (auto simp: getAccessToken_def acquireTokenServicePrincipal_def acquireTokenDeviceCode_def
        Let_def split: option.splits if_splits idp_outcome.splits)
  have hit: "getAccessToken e idp' (elapse d s1)
                 = (Inr tok, logger Debug ''Using cached access token'' (elapse d s1))"
    if "d < 55 * 60 * 1000" for d idp'
    using getAccessToken_hit
            [of "elapse d s1" "\<lparr>accessToken = tok, expiresOn = clock s1 + 3600 * 1000\<rparr>" e idp']
          c that by simp
  show ?thesis using c hit by simp
qed

theorem missing_expiry_defaults_to_one_hour_witness:
  "getAccessToken p7_env no_expiry_idp (initial_state 0)
     = (Inr ''TOK123'', snd (getAccessToken p7_env no_expiry_idp (initial_state 0)))
   \<and> trace (snd (getAccessToken p7_env no_expiry_idp (initial_state 0)))
       = trace (initial_state 0) @ [NewConfidentialClient p7_config, IdpCall p7_request]
   \<and> outcome (no_expiry_idp p7_request (clock (initial_state 0)))
       = Resolved (Some (AuthenticationResult ''TOK123'' None))
   \<and> res_expiresOn (AuthenticationResult ''TOK123'' None) = None
   \<and> clock (snd (getAccessToken p7_env no_expiry_idp (initial_state 0))) = 250
   \<and> tokenCache (snd (getAccessToken p7_env no_expiry_idp (initial_state 0)))
       = Some \<lparr>accessToken = ''TOK123'', expiresOn = 3600250\<rparr>
   \<and> fst (getAccessToken p7_env rotating_idp
         (elapse 3299999 (snd (getAccessToken p7_env no_expiry_idp (initial_state 0)))))
       = Inr ''TOK123''"
  using missing_expiry_defaults_to_one_hour
          [of p7_env no_expiry_idp "initial_state 0" "''TOK123''"
              "snd (getAccessToken p7_env no_expiry_idp (initial_state 0))"
              "NewConfidentialClient p7_config" p7_request
              "AuthenticationResult ''TOK123'' None"]
  by (simp add: evals no_expiry_idp_def p7_config_def p7_request_def)

section \<open>Properties of the API client\<close>

text \<open>
  C9 (non-2xx responses). Take any attempt of a request, first or retried, for which
  the token is there and the remote API answers with a status outside 200..299. If the
  response interceptor does not retry it (the status is neither 429 nor 5xx, or three
  retries have been made), the request completes with that response and \<open>request\<close>
  raises the \<^verbatim>\<open>PowerBIError\<close> whose \<open>statusCode\<close> is the status of the response, whose
  \<open>details\<close> are its body, whose \<open>code\<close> is \<^verbatim>\<open>POWERBI_ERROR\<close>, and whose message is the
  body's \<^verbatim>\<open>error.message\<close> when that is there and truthy and the message of the axios
  error otherwise. If the interceptor does retry it, the request does what the retried
  request does, one retry further and after the doubled delay; so the same holds of
  the attempt the request ends with.
\<close>

theorem non_2xx_raises_PowerBIError:
  assumes "getAccessToken e idp s = (Inr tok, s1)"
      and "result (srv config tok (clock s1)) = HttpResponse r"
      and "\<not> (200 \<le> status r \<and> status r < 300)"
  shows "(\<not> ((status r = 429 \<or> 500 \<le> status r)
              \<and> (case retry config of None \<Rightarrow> 0 | Some n \<Rightarrow> n) < MAX_RETRIES)
          \<longrightarrow>
          request e idp srv config s
            = (Inl (App \<lparr>name = ''PowerBIError'',
                         message =
                           (case get_prop (get_prop (Some (data r)) ''error'') ''message'' of
                              Some v \<Rightarrow>
                                if truthy v then v
                                else JStr (''Request failed with status code ''
                                             @ string_of_nat (status r))
                            | None \<Rightarrow>
                                JStr (''Request failed with status code ''
                                        @ string_of_nat (status r))),
                         statusCode = status r,
                         code = Some ''POWERBI_ERROR'',
                         details = Some (data r)\<rparr>),
               logger Error ''Power BI API error''
                 (elapse (took (srv config tok (clock s1)))
                    (emit (HttpExchange config tok (HttpResponse r)) s1))))
         \<and> ((status r = 429 \<or> 500 \<le> status r)
              \<and> (case retry config of None \<Rightarrow> 0 | Some n \<Rightarrow> n) < MAX_RETRIES
          \<longrightarrow>
          request e idp srv config s
            = request e idp srv
                (config\<lparr>retry := Some ((case retry config of None \<Rightarrow> 0 | Some n \<Rightarrow> n) + 1)\<rparr>)
                (elapse (RETRY_DELAY * 2 ^ (case retry config of None \<Rightarrow> 0 | Some n \<Rightarrow> n))
                   (logger Warn
                      (''Retrying request (''
                         @ string_of_nat ((case retry config of None \<Rightarrow> 0 | Some n \<Rightarrow> n) + 1)
                         @ ''/'' @ string_of_nat MAX_RETRIES @ '') after ''
                         @ string_of_nat
                             (RETRY_DELAY * 2 ^ (case retry config of None \<Rightarrow> 0 | Some n \<Rightarrow> n))
                         @ ''ms'')
                      (logger Error ''Power BI API error''
                         (elapse (took (srv config tok (clock s1)))
                            (emit (HttpExchange config tok (HttpResponse r)) s1))))))"
proof -
  have st: "settle (result (srv config tok (clock s1)))
              = Inl \<lparr>ax_message = ''Request failed with status code '' @ string_of_nat (status r),
                     ax_response = Some r\<rparr>"
    using assms(2,3) by (simp add: settle_non_2xx)
  have cl: "client e idp srv config s
              = (if (status r = 429 \<or> 500 \<le> status r)
                    \<and> (case retry config of None \<Rightarrow> 0 | Some n \<Rightarrow> n) < MAX_RETRIES
                 then client e idp srv
                   (config\<lparr>retry := Some ((case retry config of None \<Rightarrow> 0 | Some n \<Rightarrow> n) + 1)\<rparr>)
                   (elapse (RETRY_DELAY * 2 ^ (case retry config of None \<Rightarrow> 0 | Some n \<Rightarrow> n))
                      (logger Warn
                         (''Retrying request (''
                            @ string_of_nat ((case retry config of None \<Rightarrow> 0 | Some n \<Rightarrow> n) + 1)
                            @ ''/'' @ string_of_nat MAX_RETRIES @ '') after ''
                            @ string_of_nat
                                (RETRY_DELAY * 2 ^ (case retry config of None \<Rightarrow> 0 | Some n \<Rightarrow> n))
                            @ ''ms'')
                         (logger Error ''Power BI API error''
                            (elapse (took (srv config tok (clock s1)))
                               (emit (HttpExchange config tok (HttpResponse r)) s1)))))
                 else (Inl (Axios \<lparr>ax_message = ''Request failed with status code ''
                                                  @ string_of_nat (status r),
                                    ax_response = Some r\<rparr>),
                       logger Error ''Power BI API error''
                         (elapse (took (srv config tok (clock s1)))
                            (emit (HttpExchange config tok (HttpResponse r)) s1))))"
    by (subst client.simps) (simp add: assms(1) assms(2) st [unfolded assms(2)] Let_def)
  show ?thesis
  proof (cases "(status r = 429 \<or> 500 \<le> status r)
                  \<and> (case retry config of None \<Rightarrow> 0 | Some n \<Rightarrow> n) < MAX_RETRIES")
    case True
    have "request e idp srv config s
            = request e idp srv
                (config\<lparr>retry := Some ((case retry config of None \<Rightarrow> 0 | Some n \<Rightarrow> n) + 1)\<rparr>)
                (elapse (RETRY_DELAY * 2 ^ (case retry config of None \<Rightarrow> 0 | Some n \<Rightarrow> n))
                   (logger Warn
                      (''Retrying request (''
                         @ string_of_nat ((case retry config of None \<Rightarrow> 0 | Some n \<Rightarrow> n) + 1)
                         @ ''/'' @ string_of_nat MAX_RETRIES @ '') after ''
                         @ string_of_nat
                             (RETRY_DELAY * 2 ^ (case retry config of None \<Rightarrow> 0 | Some n \<Rightarrow> n))
                         @ ''ms'')
                      (logger Error ''Power BI API error''
                         (elapse (took (srv config tok (clock s1)))
                            (emit (HttpExchange config tok (HttpResponse r)) s1)))))"
      unfolding request_def cl if_P [OF True] by (rule refl)
    with True show ?thesis by blast
  next
    case False
    have c: "client e idp srv config s
               = (Inl (Axios \<lparr>ax_message = ''Request failed with status code ''
                                                @ string_of_nat (status r),
                                  ax_response = Some r\<rparr>),
                  logger Error ''Power BI API error''
                    (elapse (took (srv config tok (clock s1)))
                       (emit (HttpExchange config tok (HttpResponse r)) s1)))"
      unfolding cl if_not_P [OF False] by (rule refl)
    have "request e idp srv config s
            = (Inl (App (PowerBIError
                           (js_or (get_prop (get_prop (Some (data r)) ''error'') ''message'')
                                  (JStr (''Request failed with status code ''
                                           @ string_of_nat (status r))))
                           (status r) (Some (data r)))),
               logger Error ''Power BI API error''
                 (elapse (took (srv config tok (clock s1)))
                    (emit (HttpExchange config tok (HttpResponse r)) s1)))"
      unfolding request_def c by simp
    then have "request e idp srv config s
            = (Inl (App \<lparr>name = ''PowerBIError'',
                         message =
                           (case get_prop (get_prop (Some (data r)) ''error'') ''message'' of
                              Some v \<Rightarrow>
                                if truthy v then v
                                else JStr (''Request failed with status code ''
                                             @ string_of_nat (status r))
                            | None \<Rightarrow>
                                JStr (''Request failed with status code ''
                                        @ string_of_nat (status r))),
                         statusCode = status r,
                         code = Some ''POWERBI_ERROR'',
                         details = Some (data r)\<rparr>),
               logger Error ''Power BI API error''
                 (elapse (took (srv config tok (clock s1)))
                    (emit (HttpExchange config tok (HttpResponse r)) s1)))"
      unfolding PowerBIError_def js_or_def .
    with False show ?thesis by blast
  qed
qed

theorem non_2xx_raises_PowerBIError_witness:
  "getAccessToken p7_env p7_idp warm_state
     = (Inr ''TOK123'', logger Debug ''Using cached access token'' warm_state)
   \<and> result (flaky_api (list_groups\<lparr>retry := Some 1\<rparr>) ''TOK123''
               (clock (logger Debug ''Using cached access token'' warm_state)))
       = HttpResponse not_found
   \<and> \<not> (200 \<le> status not_found \<and> status not_found < 300)
   \<and> \<not> (status not_found = 429 \<or> 500 \<le> status not_found)
   \<and> request p7_env p7_idp flaky_api (list_groups\<lparr>retry := Some 1\<rparr>) warm_state
       = (Inl (App \<lparr>name = ''PowerBIError'', message = JStr ''Report not found'',
                    statusCode = 404, code = Some ''POWERBI_ERROR'',
                    details = Some (JObj [(''error'',
                                JObj [(''code'', JStr ''ItemNotFound''),
                                      (''message'', JStr ''Report not found'')])])\<rparr>),
          logger Error ''Power BI API error''
            (elapse 20
               (emit (HttpExchange (list_groups\<lparr>retry := Some 1\<rparr>) ''TOK123''
                        (HttpResponse not_found))
                  (logger Debug ''Using cached access token'' warm_state))))
   \<and> fst (request p7_env p7_idp flaky_api list_groups warm_state)
       = Inl (App \<lparr>name = ''PowerBIError'', message = JStr ''Report not found'',
                   statusCode = 404, code = Some ''POWERBI_ERROR'',
                   details = Some (data not_found)\<rparr>)"
  using non_2xx_raises_PowerBIError
          [of p7_env p7_idp warm_state "''TOK123''"
              "logger Debug ''Using cached access token'' warm_state"
              flaky_api "list_groups\<lparr>retry := Some 1\<rparr>" not_found]
        non_2xx_raises_PowerBIError
          [of p7_env p7_idp warm_state "''TOK123''"
              "logger Debug ''Using cached access token'' warm_state"
              flaky_api list_groups "\<lparr>status = 503, data = JStr ''busy''\<rparr>"]
  by (simp add: client_evals warm_state_def flaky_api_def list_groups_def not_found_def
        js_or_def PowerBIError_def)

end
